theory Spec2Isabelle
  imports Main "HOL-Library.Word"
begin

section \<open>Data model\<close>

subsection \<open>JSON-like values of the client\<close>

text \<open>
  The values \<open>remove_none_values\<close> of \<open>simple_happy_path_client.py\<close> walks over: Python's
  \<open>None\<close>, a dict (its items in insertion order), a list, and every other object
  (strings, numbers, booleans, tuples, ...), which the function never looks into and which
  is kept here as an opaque leaf of type \<open>'a\<close>.
\<close>

datatype ('k, 'a) json =
    JNone
  | JLeaf 'a
  | JList "('k, 'a) json list"
  | JDict "('k \<times> ('k, 'a) json) list"

subsection \<open>The payment service\<close>

text \<open>
  The two Python exception classes \<open>hedera_service.py\<close> raises, each with its message.
\<close>

datatype error = ValueError string | Exception string

type_synonym bytes = "8 word list"

text \<open>
  A transfer transaction exposes \<open>hbar_transfers\<close>, a dict from account id to amount, kept
  as the list of its items in iteration order. The client also sets a memo.
\<close>

record ('a, 'v) transfer_transaction =
  hbar_transfers :: "('a \<times> 'v) list"
  transaction_memo :: string

text \<open>
  What \<open>Transaction.from_bytes\<close> can return: a \<open>TransferTransaction\<close>, or a transaction of
  another class, of which the service reads only \<open>type(transaction).__name__\<close>.
\<close>

datatype ('a, 'v) transaction =
    TransferTransaction "('a, 'v) transfer_transaction"
  | OtherTransaction string

text \<open>
  The response of \<open>execute\<close> (its transaction id as \<open>str\<close> renders it) and the receipt
  (the name of its status, and its optional timestamp).
\<close>

record response =
  response_transaction_id :: string

record 't receipt =
  receipt_status_name :: string
  receipt_timestamp :: "'t option"

text \<open>The dict \<open>process_pre_signed_payment\<close> returns.\<close>

record settlement_result =
  transaction_id :: string
  status :: string
  network :: string
  timestamp :: "string option"
  explorer_url :: string

text \<open>
  The fields of \<open>HederaPaymentService\<close> that its methods read. The network client held
  in \<open>self.client\<close> is the network state \<open>'n\<close> threaded through
  \<open>process_pre_signed_payment\<close> below.
\<close>

record 'a service =
  network_name :: string
  merchant_account_id :: 'a

text \<open>
  The library calls of the service (Python's \<open>base64\<close> and the Hiero SDK), which are not
  part of the repository, are parameters of the model. A call that can raise returns
  \<open>Inl\<close> of the exception's text. Account ids \<open>'a\<close>, leg amounts \<open>'v\<close>, \<open>Hbar\<close> values
  \<open>'h\<close>, Python floats \<open>'f\<close>, timestamps \<open>'t\<close> and the state of the ledger network \<open>'n\<close>
  are left open. \<open>execute\<close> and \<open>get_receipt\<close> talk to the network, so they take and
  return its state.
\<close>

record ('a, 'v, 'h, 'f, 't, 'n) externals =
  b64decode :: "string \<Rightarrow> string + bytes"
  from_bytes :: "bytes \<Rightarrow> string + ('a, 'v) transaction"
  to_hbar :: "'v \<Rightarrow> 'h"
  Hbar :: "'f \<Rightarrow> 'h"
  str_account_id :: "'a \<Rightarrow> string"
  str_hbar :: "'h \<Rightarrow> string"
  execute :: "('a, 'v) transaction \<Rightarrow> 'n \<Rightarrow> (string + response) \<times> 'n"
  get_receipt :: "response \<Rightarrow> 'n \<Rightarrow> (string + 't receipt) \<times> 'n"
  bool_timestamp :: "'t \<Rightarrow> bool"
  str_timestamp :: "'t \<Rightarrow> string"

section \<open>Operations\<close>

subsection \<open>\<open>remove_none_values\<close>\<close>

text \<open>
  A dict comprehension that drops the items whose value is \<open>None\<close> and recurses into the
  others; a list comprehension that recurses into every element (a \<open>None\<close> element stays);
  anything else is returned as it is.
\<close>

fun remove_none_values :: "('k, 'a) json \<Rightarrow> ('k, 'a) json" where
  "remove_none_values (JDict items) =
     JDict (map (\<lambda>(k, v). (k, remove_none_values v))
                (filter (\<lambda>(k, v). v \<noteq> JNone) items))"
| "remove_none_values (JList vs) = JList (map remove_none_values vs)"
| "remove_none_values obj = obj"

subsection \<open>\<open>_get_explorer_url\<close>\<close>

definition base_urls :: "(string \<times> string) list" where
  "base_urls =
     [(''mainnet'', ''https://hashscan.io/mainnet''),
      (''testnet'', ''https://hashscan.io/testnet''),
      (''previewnet'', ''https://hashscan.io/previewnet'')]"

definition get_explorer_url :: "('a, 'm) service_scheme \<Rightarrow> string \<Rightarrow> string" where
  "get_explorer_url self tx_id =
     (let base_url = (case map_of base_urls (network_name self) of
                        Some url \<Rightarrow> url
                      | None \<Rightarrow> ''https://hashscan.io/testnet'')
      in base_url @ ''/transaction/'' @ tx_id)"

subsection \<open>\<open>_validate_transaction\<close>\<close>

text \<open>
  The loop over \<open>transfers.items()\<close>: the amount of the first item whose key equals the
  merchant account, \<open>None\<close> when the loop ends without a \<open>break\<close>.
\<close>

fun find_merchant_transfer :: "'a \<Rightarrow> ('a \<times> 'v) list \<Rightarrow> 'v option" where
  "find_merchant_transfer merchant [] = None"
| "find_merchant_transfer merchant ((account_id, amount) # rest) =
     (if account_id = merchant then Some amount
      else find_merchant_transfer merchant rest)"

text \<open>
  The method returns \<open>None\<close> (here \<open>Inr ()\<close>) or raises \<open>ValueError\<close>. \<open>Hbar\<close> values
  are compared with Python's \<open><\<close>, taken to be a linear order on \<open>'h\<close>. This is
  the outcome of the method; what it does to its surroundings follows below.
\<close>

definition validate_transaction ::
  "('a, 'v, 'h::linorder, 'f, 't, 'n) externals \<Rightarrow> ('a, 'm) service_scheme \<Rightarrow>
   ('a, 'v) transfer_transaction \<Rightarrow> 'f \<Rightarrow> error + unit" where
  "validate_transaction ext self tx expected_amount_hbar =
     (let transfers = hbar_transfers tx in
      case find_merchant_transfer (merchant_account_id self) transfers of
        None \<Rightarrow>
          Inl (ValueError (''No transfer to merchant account ''
                 @ str_account_id ext (merchant_account_id self) @ '' found''))
      | Some merchant_transfer \<Rightarrow>
          (let actual_hbar = to_hbar ext merchant_transfer;
               expected_hbar = Hbar ext expected_amount_hbar
           in if actual_hbar < expected_hbar
              then Inl (ValueError (''Insufficient amount: expected ''
                          @ str_hbar ext expected_hbar @ '', got '' @ str_hbar ext actual_hbar))
              else Inr ()))"



subsection \<open>\<open>process_pre_signed_payment\<close>\<close>

text \<open>
  The six numbered steps of the method. The result is the returned dict or the raised
  exception, together with the state of the ledger network after the call. The logging
  calls of this method are left out.
\<close>

definition process_pre_signed_payment ::
  "('a, 'v, 'h::linorder, 'f, 't, 'n) externals \<Rightarrow> ('a, 'm) service_scheme \<Rightarrow>
   string \<Rightarrow> 'f \<Rightarrow> string \<Rightarrow> 'n \<Rightarrow> (error + settlement_result) \<times> 'n" where
  "process_pre_signed_payment ext self signed_transaction_base64 expected_amount_hbar
       checkout_id net =
     (case b64decode ext signed_transaction_base64 of
        Inl e \<Rightarrow> (Inl (ValueError (''Invalid base64 encoding: '' @ e)), net)
      | Inr tx_bytes \<Rightarrow>
     (case from_bytes ext tx_bytes of
        Inl e \<Rightarrow> (Inl (ValueError (''Invalid transaction bytes: '' @ e)), net)
      | Inr (OtherTransaction type_name) \<Rightarrow>
          (Inl (ValueError (''Expected TransferTransaction, got '' @ type_name)), net)
      | Inr (TransferTransaction tx) \<Rightarrow>
     (case validate_transaction ext self tx expected_amount_hbar of
        Inl err \<Rightarrow> (Inl err, net)
      | Inr _ \<Rightarrow>
     (case execute ext (TransferTransaction tx) net of
        (Inl e, net1) \<Rightarrow> (Inl (Exception (''Hedera network error: '' @ e)), net1)
      | (Inr response, net1) \<Rightarrow>
     (case get_receipt ext response net1 of
        (Inl e, net2) \<Rightarrow> (Inl (Exception (''Hedera network error: '' @ e)), net2)
      | (Inr receipt, net2) \<Rightarrow>
          if receipt_status_name receipt \<noteq> ''SUCCESS''
          then (Inl (Exception (''Transaction failed with status: ''
                       @ receipt_status_name receipt)), net2)
          else
            (let tx_id = response_transaction_id response in
             (Inr \<lparr>transaction_id = tx_id,
                   status = ''SUCCESS'',
                   network = network_name self,
                   timestamp =
                     (case receipt_timestamp receipt of
                        None \<Rightarrow> None
                      | Some ts \<Rightarrow>
                          if bool_timestamp ext ts then Some (str_timestamp ext ts)
                          else None),
                   explorer_url = get_explorer_url self tx_id\<rparr>,
              net2)))))))"

subsection \<open>The transfers the client and the test script build\<close>

text \<open>
  Both scripts build their transfer with the SDK's chained builder:
  \<open>TransferTransaction()\<close>, two \<open>add_hbar_transfer\<close> calls, \<open>set_transaction_memo\<close>, then
  \<open>freeze_with(client).sign(key)\<close>. The builder is not part of the repository, so its four
  steps are parameters.
\<close>

record 'a transfer_builder =
  new_transfer :: "('a, int) transfer_transaction"
  add_hbar_transfer ::
    "'a \<Rightarrow> int \<Rightarrow> ('a, int) transfer_transaction \<Rightarrow> ('a, int) transfer_transaction"
  set_transaction_memo ::
    "string \<Rightarrow> ('a, int) transfer_transaction \<Rightarrow> ('a, int) transfer_transaction"
  freeze_and_sign :: "('a, int) transfer_transaction \<Rightarrow> ('a, int) transfer_transaction"

text \<open>
  \<open>create_hedera_payment\<close> of the client, up to the signed transaction \<open>transfer_tx\<close>: the
  tinybar amount is \<open>int(amount_hbar * 100_000_000)\<close>, with Python's float product
  \<open>float_mul\<close> and truncation \<open>py_int\<close> as parameters.
\<close>

definition create_hedera_payment ::
  "'a transfer_builder \<Rightarrow> ('f \<Rightarrow> int \<Rightarrow> 'f) \<Rightarrow> ('f \<Rightarrow> int) \<Rightarrow> 'a \<Rightarrow> 'a \<Rightarrow> 'f \<Rightarrow> string \<Rightarrow>
   ('a, int) transfer_transaction" where
  "create_hedera_payment b float_mul py_int customer_acct merchant_acct amount_hbar checkout_id =
     (let amount_tinybars = py_int (float_mul amount_hbar 100000000) in
      freeze_and_sign b
        (set_transaction_memo b (''UCP Checkout: '' @ checkout_id)
          (add_hbar_transfer b merchant_acct amount_tinybars
            (add_hbar_transfer b customer_acct (- amount_tinybars)
              (new_transfer b)))))"

text \<open>\<open>create_transaction\<close> of \<open>test_hedera_payment.py\<close>, with its constant amount.\<close>

definition AMOUNT_HBAR :: int where
  "AMOUNT_HBAR = 1 * 10 ^ 8"

definition create_transaction ::
  "'a transfer_builder \<Rightarrow> 'a \<Rightarrow> 'a \<Rightarrow> ('a, int) transfer_transaction" where
  "create_transaction b customer_id merchant_id =
     freeze_and_sign b
       (set_transaction_memo b ''UCP Test Payment''
         (add_hbar_transfer b merchant_id AMOUNT_HBAR
           (add_hbar_transfer b customer_id (- AMOUNT_HBAR)
             (new_transfer b))))"

text \<open>
  What is asked of the builder below: a new transaction has no legs; adding a leg for an
  account that has none yet keeps \<open>hbar_transfers\<close> a dict and stores that leg beside the
  others; the memo, freezing and signing leave the legs alone. Nothing is asked about a
  second leg for an account already present.
\<close>

definition dict_builder :: "'a transfer_builder \<Rightarrow> bool" where
  "dict_builder b \<longleftrightarrow>
     hbar_transfers (new_transfer b) = []
     \<and> (\<forall>a v tx. distinct (map fst (hbar_transfers tx)) \<and> a \<notin> fst ` set (hbar_transfers tx) \<longrightarrow>
           distinct (map fst (hbar_transfers (add_hbar_transfer b a v tx)))
           \<and> set (hbar_transfers (add_hbar_transfer b a v tx))
               = insert (a, v) (set (hbar_transfers tx)))
     \<and> (\<forall>m tx. hbar_transfers (set_transaction_memo b m tx) = hbar_transfers tx)
     \<and> (\<forall>tx. hbar_transfers (freeze_and_sign b tx) = hbar_transfers tx)"

text \<open>
  The statement "the transaction carries exactly one customer leg of minus \<open>t\<close> and one
  merchant leg of plus \<open>t\<close>", for \<open>hbar_transfers\<close> a dict: its keys are distinct and its
  items are these two.
\<close>

definition carries_balanced_legs ::
  "('a, int) transfer_transaction \<Rightarrow> 'a \<Rightarrow> 'a \<Rightarrow> int \<Rightarrow> bool" where
  "carries_balanced_legs tx customer merchant t \<longleftrightarrow>
     distinct (map fst (hbar_transfers tx))
     \<and> set (hbar_transfers tx) = {(customer, - t), (merchant, t)}"

text \<open>
  A builder to evaluate on: \<open>add_hbar_transfer\<close> adds the amount to the account's entry
  when it has one, and appends a new entry otherwise.
\<close>

fun dict_add :: "'a \<Rightarrow> int \<Rightarrow> ('a \<times> int) list \<Rightarrow> ('a \<times> int) list" where
  "dict_add a v [] = [(a, v)]"
| "dict_add a v ((k, u) # rest) =
     (if k = a then (k, u + v) # rest else (k, u) # dict_add a v rest)"

definition sample_builder :: "nat transfer_builder" where
  "sample_builder =
     \<lparr>new_transfer = \<lparr>hbar_transfers = [], transaction_memo = []\<rparr>,
      add_hbar_transfer = (\<lambda>a v tx. tx\<lparr>hbar_transfers := dict_add a v (hbar_transfers tx)\<rparr>),
      set_transaction_memo = (\<lambda>m tx. tx\<lparr>transaction_memo := m\<rparr>),
      freeze_and_sign = (\<lambda>tx. tx)\<rparr>"

subsection \<open>A concrete environment\<close>

text \<open>
  An instance of the library calls on which the definitions can be evaluated: accounts are
  numbers, amounts and \<open>Hbar\<close> values are integers of tinybars, a float is a whole number
  of HBAR, and the network state is the list of the transactions it was handed. The
  receipt's status name is a parameter.
\<close>

definition sample_transfer :: "(nat, int) transfer_transaction" where
  "sample_transfer =
     \<lparr>hbar_transfers = [(2, - 250000000), (98, 250000000)],
      transaction_memo = ''UCP Checkout: c1''\<rparr>"

definition sample_externals ::
  "string \<Rightarrow> (nat, int, int, int, nat, (nat, int) transaction list) externals" where
  "sample_externals status_name =
     \<lparr>b64decode = (\<lambda>s. if s = ''VA=='' then Inr [84]
                        else if s = ''Qw=='' then Inr [67]
                        else if s = ''/w=='' then Inr [255]
                        else Inl ''Incorrect padding''),
      from_bytes = (\<lambda>bs. if bs = [84] then Inr (TransferTransaction sample_transfer)
                          else if bs = [67] then Inr (OtherTransaction ''AccountCreateTransaction'')
                          else Inl ''Error parsing message''),
      to_hbar = (\<lambda>v. v),
      Hbar = (\<lambda>f. f * 100000000),
      str_account_id = (\<lambda>a. ''0.0.x''),
      str_hbar = (\<lambda>h. ''h''),
      execute = (\<lambda>tx n. (Inr \<lparr>response_transaction_id = ''0.0.2@1.5''\<rparr>, n @ [tx])),
      get_receipt = (\<lambda>r n. (Inr \<lparr>receipt_status_name = status_name,
                                      receipt_timestamp = Some 17\<rparr>, n)),
      bool_timestamp = (\<lambda>t. True),
      str_timestamp = (\<lambda>t. ''1.17'')\<rparr>"

definition sample_service :: "nat service" where
  "sample_service = \<lparr>network_name = ''testnet'', merchant_account_id = 98\<rparr>"

section \<open>Properties\<close>

subsection \<open>None-value scrubbing\<close>

lemma remove_none_values_eq_JNone [simp]:
  "remove_none_values v = JNone \<longleftrightarrow> v = JNone"
  by (cases v) simp_all

lemma filter_not_none_after_scrub:
  "filter (\<lambda>(k, v). v \<noteq> JNone)
     (map (\<lambda>(k, v). (k, remove_none_values v)) (filter (\<lambda>(k, v). v \<noteq> JNone) items))
   = map (\<lambda>(k, v). (k, remove_none_values v)) (filter (\<lambda>(k, v). v \<noteq> JNone) items)"
  by (induction items) auto

lemma remove_none_values_idem:
  "remove_none_values (remove_none_values obj) = remove_none_values obj"
proof (induction obj rule: remove_none_values.induct)
  case (1 items)
  then show ?case
    by (auto simp: filter_not_none_after_scrub)
next
  case (2 vs)
  then show ?case by simp
qed simp_all

text \<open>
  C10. Scrubbing twice gives what scrubbing once gives, and a value that is neither a dict
  nor a list (\<open>None\<close> or any other object) comes back unchanged.
\<close>

theorem remove_none_values_idempotent_leaf_preserving:
  "remove_none_values (remove_none_values (obj :: ('k, 'a) json)) = remove_none_values obj
   \<and> remove_none_values (JNone :: ('k, 'a) json) = JNone
   \<and> remove_none_values (JLeaf x :: ('k, 'a) json) = JLeaf x"
  by (simp add: remove_none_values_idem)

subsection \<open>Explorer URL\<close>

text \<open>
  C8. With a network name other than \<open>mainnet\<close>, \<open>testnet\<close> and \<open>previewnet\<close>, the explorer
  URL is built on the testnet base URL; the unknown name does not occur in it.
\<close>

theorem explorer_url_unknown_network_falls_back:
  "network_name self \<notin> {''mainnet'', ''testnet'', ''previewnet''} \<Longrightarrow>
   get_explorer_url self tx_id = ''https://hashscan.io/testnet'' @ ''/transaction/'' @ tx_id"
  by (simp add: get_explorer_url_def base_urls_def)

theorem explorer_url_unknown_network_falls_back_witness:
  "''localnet'' \<notin> {''mainnet'', ''testnet'', ''previewnet''}
   \<and> get_explorer_url \<lparr>network_name = ''localnet'', merchant_account_id = (98::nat)\<rparr> ''0.0.7@1.2''
       = ''https://hashscan.io/testnet/transaction/0.0.7@1.2''"
  using explorer_url_unknown_network_falls_back
          [of "\<lparr>network_name = ''localnet'', merchant_account_id = (98::nat)\<rparr>" "''0.0.7@1.2''"]
  by simp

subsection \<open>The settlement validator\<close>

lemma find_merchant_transfer_map_of:
  "find_merchant_transfer merchant transfers = map_of transfers merchant"
  by (induction transfers) auto

lemma find_merchant_transfer_None:
  "merchant \<notin> fst ` set transfers \<Longrightarrow> find_merchant_transfer merchant transfers = None"
  by (simp add: find_merchant_transfer_map_of map_of_eq_None_iff)

lemma find_merchant_transfer_Some:
  "distinct (map fst transfers) \<Longrightarrow> (merchant, amount) \<in> set transfers \<Longrightarrow>
   find_merchant_transfer merchant transfers = Some amount"
  by (simp add: find_merchant_transfer_map_of)

lemma validate_transaction_found:
  "find_merchant_transfer (merchant_account_id self) (hbar_transfers tx) = Some amount \<Longrightarrow>
   validate_transaction ext self tx expected =
     (if to_hbar ext amount < Hbar ext expected
      then Inl (ValueError (''Insufficient amount: expected ''
                  @ str_hbar ext (Hbar ext expected) @ '', got ''
                  @ str_hbar ext (to_hbar ext amount)))
      else Inr ())"
  by (simp add: validate_transaction_def Let_def)

lemma validate_transaction_not_found:
  "find_merchant_transfer (merchant_account_id self) (hbar_transfers tx) = None \<Longrightarrow>
   validate_transaction ext self tx expected =
     Inl (ValueError (''No transfer to merchant account ''
            @ str_account_id ext (merchant_account_id self) @ '' found''))"
  by (simp add: validate_transaction_def Let_def)

text \<open>
  C1. When the transfer (a dict, so its keys are distinct) has a leg to the merchant
  account, validation succeeds exactly when the expected amount \<open>Hbar(expected_amount_hbar)\<close>
  is at most the leg's amount \<open>amount.to_hbar()\<close>: a smaller amount raises the
  \<open>Insufficient amount\<close> error, an equal amount passes, a greater amount passes.
\<close>

theorem validate_transaction_amount_threshold:
  assumes "distinct (map fst (hbar_transfers tx))"
    and "(merchant_account_id self, amount) \<in> set (hbar_transfers tx)"
  shows "(validate_transaction ext self tx expected = Inr ()
            \<longleftrightarrow> Hbar ext expected \<le> to_hbar ext amount)
       \<and> (to_hbar ext amount < Hbar ext expected \<longrightarrow>
            validate_transaction ext self tx expected =
              Inl (ValueError (''Insufficient amount: expected ''
                     @ str_hbar ext (Hbar ext expected) @ '', got ''
                     @ str_hbar ext (to_hbar ext amount))))
       \<and> (to_hbar ext amount = Hbar ext expected \<longrightarrow>
            validate_transaction ext self tx expected = Inr ())
       \<and> (Hbar ext expected < to_hbar ext amount \<longrightarrow>
            validate_transaction ext self tx expected = Inr ())"
proof -
  have found: "find_merchant_transfer (merchant_account_id self) (hbar_transfers tx) = Some amount"
    using assms by (rule find_merchant_transfer_Some)
  show ?thesis
    by (auto simp: validate_transaction_found [OF found])
qed

theorem validate_transaction_amount_threshold_witness:
  "distinct (map fst (hbar_transfers sample_transfer))
   \<and> (merchant_account_id sample_service, 250000000) \<in> set (hbar_transfers sample_transfer)
   \<and> validate_transaction (sample_externals ''SUCCESS'') sample_service sample_transfer 2 = Inr ()
   \<and> validate_transaction (sample_externals ''SUCCESS'') sample_service sample_transfer 3
       = Inl (ValueError ''Insufficient amount: expected h, got h'')"
proof -
  have d: "distinct (map fst (hbar_transfers sample_transfer))"
    by (simp add: sample_transfer_def)
  have m: "(merchant_account_id sample_service, 250000000) \<in> set (hbar_transfers sample_transfer)"
    by (simp add: sample_transfer_def sample_service_def)
  show ?thesis
    using d m
      validate_transaction_amount_threshold [OF d m, of "sample_externals ''SUCCESS''" 2]
      validate_transaction_amount_threshold [OF d m, of "sample_externals ''SUCCESS''" 3]
    by (simp add: sample_externals_def)
qed

text \<open>
  C3. The validator picks the leg keyed by the merchant account. Without such a leg it
  raises the \<open>No transfer to merchant account\<close> error, whatever the expected amount and
  the two \<open>Hbar\<close> conversions are: the comparison plays no part in the outcome. With such
  a leg the outcome is the comparison of that leg's amount.
\<close>

theorem validate_transaction_selects_merchant_leg:
  "(merchant_account_id self \<notin> fst ` set (hbar_transfers tx) \<longrightarrow>
      validate_transaction ext self tx expected =
        Inl (ValueError (''No transfer to merchant account ''
               @ str_account_id ext (merchant_account_id self) @ '' found''))
      \<and> validate_transaction (ext\<lparr>to_hbar := th, Hbar := hb\<rparr>) self tx expected'
          = validate_transaction ext self tx expected)
   \<and> (distinct (map fst (hbar_transfers tx))
        \<and> (merchant_account_id self, amount) \<in> set (hbar_transfers tx) \<longrightarrow>
      find_merchant_transfer (merchant_account_id self) (hbar_transfers tx) = Some amount
      \<and> validate_transaction ext self tx expected =
          (if to_hbar ext amount < Hbar ext expected
           then Inl (ValueError (''Insufficient amount: expected ''
                       @ str_hbar ext (Hbar ext expected) @ '', got ''
                       @ str_hbar ext (to_hbar ext amount)))
           else Inr ()))"
  by (auto simp: validate_transaction_not_found find_merchant_transfer_None
        find_merchant_transfer_Some validate_transaction_found)

theorem validate_transaction_selects_merchant_leg_witness:
  "merchant_account_id sample_service
     \<notin> fst ` set (hbar_transfers (sample_transfer\<lparr>hbar_transfers := [(2, - 5), (77, 5)]\<rparr>))
   \<and> validate_transaction (sample_externals ''SUCCESS'') sample_service
         (sample_transfer\<lparr>hbar_transfers := [(2, - 5), (77, 5)]\<rparr>) 2
       = Inl (ValueError ''No transfer to merchant account 0.0.x found'')
   \<and> distinct (map fst (hbar_transfers sample_transfer))
   \<and> (merchant_account_id sample_service, 250000000) \<in> set (hbar_transfers sample_transfer)
   \<and> find_merchant_transfer (merchant_account_id sample_service) (hbar_transfers sample_transfer)
       = Some 250000000
   \<and> validate_transaction (sample_externals ''SUCCESS'') sample_service sample_transfer 2
       = Inr ()"
  using validate_transaction_selects_merchant_leg
          [where ext = "sample_externals ''SUCCESS''" and self = sample_service
             and tx = "sample_transfer\<lparr>hbar_transfers := [(2, - 5), (77, 5)]\<rparr>"
             and expected = 2]
        validate_transaction_selects_merchant_leg
          [where ext = "sample_externals ''SUCCESS''" and self = sample_service
             and tx = sample_transfer and expected = 2 and amount = 250000000]
  by (simp add: sample_externals_def sample_service_def sample_transfer_def)









subsection \<open>The settlement pipeline\<close>

lemma process_bad_base64:
  "b64decode ext s = Inl e \<Longrightarrow>
   process_pre_signed_payment ext self s expected checkout_id net =
     (Inl (ValueError (''Invalid base64 encoding: '' @ e)), net)"
  by (simp add: process_pre_signed_payment_def)

lemma process_bad_bytes:
  "b64decode ext s = Inr bs \<Longrightarrow> from_bytes ext bs = Inl e \<Longrightarrow>
   process_pre_signed_payment ext self s expected checkout_id net =
     (Inl (ValueError (''Invalid transaction bytes: '' @ e)), net)"
  by (simp add: process_pre_signed_payment_def)

lemma process_not_transfer:
  "b64decode ext s = Inr bs \<Longrightarrow> from_bytes ext bs = Inr (OtherTransaction type_name) \<Longrightarrow>
   process_pre_signed_payment ext self s expected checkout_id net =
     (Inl (ValueError (''Expected TransferTransaction, got '' @ type_name)), net)"
  by (simp add: process_pre_signed_payment_def)

lemma process_invalid:
  "b64decode ext s = Inr bs \<Longrightarrow> from_bytes ext bs = Inr (TransferTransaction tx) \<Longrightarrow>
   validate_transaction ext self tx expected = Inl err \<Longrightarrow>
   process_pre_signed_payment ext self s expected checkout_id net = (Inl err, net)"
  by (simp add: process_pre_signed_payment_def)

lemma process_execute_raises:
  "b64decode ext s = Inr bs \<Longrightarrow> from_bytes ext bs = Inr (TransferTransaction tx) \<Longrightarrow>
   validate_transaction ext self tx expected = Inr () \<Longrightarrow>
   execute ext (TransferTransaction tx) net = (Inl e, net_x) \<Longrightarrow>
   process_pre_signed_payment ext self s expected checkout_id net =
     (Inl (Exception (''Hedera network error: '' @ e)), net_x)"
  by (simp add: process_pre_signed_payment_def)

lemma process_get_receipt_raises:
  "b64decode ext s = Inr bs \<Longrightarrow> from_bytes ext bs = Inr (TransferTransaction tx) \<Longrightarrow>
   validate_transaction ext self tx expected = Inr () \<Longrightarrow>
   execute ext (TransferTransaction tx) net = (Inr r, net_x) \<Longrightarrow>
   get_receipt ext r net_x = (Inl e, net_r) \<Longrightarrow>
   process_pre_signed_payment ext self s expected checkout_id net =
     (Inl (Exception (''Hedera network error: '' @ e)), net_r)"
  by (simp add: process_pre_signed_payment_def)

lemma process_receipt:
  "b64decode ext s = Inr bs \<Longrightarrow> from_bytes ext bs = Inr (TransferTransaction tx) \<Longrightarrow>
   validate_transaction ext self tx expected = Inr () \<Longrightarrow>
   execute ext (TransferTransaction tx) net = (Inr r, net_x) \<Longrightarrow>
   get_receipt ext r net_x = (Inr rc, net_r) \<Longrightarrow>
   process_pre_signed_payment ext self s expected checkout_id net =
     (if receipt_status_name rc \<noteq> ''SUCCESS''
      then (Inl (Exception (''Transaction failed with status: '' @ receipt_status_name rc)), net_r)
      else (Inr \<lparr>transaction_id = response_transaction_id r,
                 status = ''SUCCESS'',
                 network = network_name self,
                 timestamp =
                   (case receipt_timestamp rc of
                      None \<Rightarrow> None
                    | Some ts \<Rightarrow>
                        if bool_timestamp ext ts then Some (str_timestamp ext ts) else None),
                 explorer_url = get_explorer_url self (response_transaction_id r)\<rparr>, net_r))"
  by (simp add: process_pre_signed_payment_def Let_def)

lemma sample_validate_ok:
  "validate_transaction (sample_externals st) sample_service sample_transfer 2 = Inr ()"
  by (simp add: validate_transaction_def sample_externals_def sample_service_def
        sample_transfer_def)

lemma sample_validate_low:
  "validate_transaction (sample_externals st) sample_service sample_transfer 3
     = Inl (ValueError ''Insufficient amount: expected h, got h'')"
  by (simp add: validate_transaction_def sample_externals_def sample_service_def
        sample_transfer_def)

lemma sample_b64decode:
  "b64decode (sample_externals st) ''VA=='' = Inr [84]"
  "b64decode (sample_externals st) ''Qw=='' = Inr [67]"
  "b64decode (sample_externals st) ''/w=='' = Inr [255]"
  "b64decode (sample_externals st) ''VA='' = Inl ''Incorrect padding''"
  by (simp_all add: sample_externals_def)

lemma sample_from_bytes:
  "from_bytes (sample_externals st) [84] = Inr (TransferTransaction sample_transfer)"
  "from_bytes (sample_externals st) [67] = Inr (OtherTransaction ''AccountCreateTransaction'')"
  "from_bytes (sample_externals st) [255] = Inl ''Error parsing message''"
  by (simp_all add: sample_externals_def)

lemma sample_execute:
  "execute (sample_externals st) tx n = (Inr \<lparr>response_transaction_id = ''0.0.2@1.5''\<rparr>, n @ [tx])"
  by (simp add: sample_externals_def)

lemma sample_get_receipt:
  "get_receipt (sample_externals st) r n
     = (Inr \<lparr>receipt_status_name = st, receipt_timestamp = Some 17\<rparr>, n)"
  by (simp add: sample_externals_def)

text \<open>
  C4. The steps run in the order decode, parse, kind check, validation, submission,
  receipt. A failed base64 decoding and a failed parse raise the two \<open>Invalid ...\<close>
  errors, a transaction of another class raises \<open>Expected TransferTransaction\<close>, a
  failed validation raises the validator's error; in all four cases the network state is
  the one the call started with, so nothing was submitted. Once validation has passed, the
  parsed transaction is handed to \<open>execute\<close> on that state, and the receipt is asked
  for on the state \<open>execute\<close> leaves.
\<close>

theorem pipeline_short_circuits_before_submission:
  "(b64decode ext s = Inl e \<longrightarrow>
      process_pre_signed_payment ext self s expected checkout_id net =
        (Inl (ValueError (''Invalid base64 encoding: '' @ e)), net))
   \<and> (b64decode ext s = Inr bs \<and> from_bytes ext bs = Inl e \<longrightarrow>
      process_pre_signed_payment ext self s expected checkout_id net =
        (Inl (ValueError (''Invalid transaction bytes: '' @ e)), net))
   \<and> (b64decode ext s = Inr bs \<and> from_bytes ext bs = Inr (OtherTransaction type_name) \<longrightarrow>
      process_pre_signed_payment ext self s expected checkout_id net =
        (Inl (ValueError (''Expected TransferTransaction, got '' @ type_name)), net))
   \<and> (b64decode ext s = Inr bs \<and> from_bytes ext bs = Inr (TransferTransaction tx)
        \<and> validate_transaction ext self tx expected = Inl err \<longrightarrow>
      process_pre_signed_payment ext self s expected checkout_id net = (Inl err, net))
   \<and> (b64decode ext s = Inr bs \<and> from_bytes ext bs = Inr (TransferTransaction tx)
        \<and> validate_transaction ext self tx expected = Inr ()
        \<and> execute ext (TransferTransaction tx) net = (Inl e, net_x) \<longrightarrow>
      process_pre_signed_payment ext self s expected checkout_id net =
        (Inl (Exception (''Hedera network error: '' @ e)), net_x))
   \<and> (b64decode ext s = Inr bs \<and> from_bytes ext bs = Inr (TransferTransaction tx)
        \<and> validate_transaction ext self tx expected = Inr ()
        \<and> execute ext (TransferTransaction tx) net = (Inr r, net_x)
        \<and> get_receipt ext r net_x = (Inl e, net_r) \<longrightarrow>
      process_pre_signed_payment ext self s expected checkout_id net =
        (Inl (Exception (''Hedera network error: '' @ e)), net_r))
   \<and> (b64decode ext s = Inr bs \<and> from_bytes ext bs = Inr (TransferTransaction tx)
        \<and> validate_transaction ext self tx expected = Inr ()
        \<and> execute ext (TransferTransaction tx) net = (Inr r, net_x)
        \<and> get_receipt ext r net_x = (Inr rc, net_r) \<longrightarrow>
      snd (process_pre_signed_payment ext self s expected checkout_id net) = net_r)"
proof (intro conjI impI)
  assume "b64decode ext s = Inl e"
  then show "process_pre_signed_payment ext self s expected checkout_id net =
        (Inl (ValueError (''Invalid base64 encoding: '' @ e)), net)"
    by (rule process_bad_base64)
next
  assume "b64decode ext s = Inr bs \<and> from_bytes ext bs = Inl e"
  then show "process_pre_signed_payment ext self s expected checkout_id net =
        (Inl (ValueError (''Invalid transaction bytes: '' @ e)), net)"
    by (simp add: process_bad_bytes)
next
  assume "b64decode ext s = Inr bs \<and> from_bytes ext bs = Inr (OtherTransaction type_name)"
  then show "process_pre_signed_payment ext self s expected checkout_id net =
        (Inl (ValueError (''Expected TransferTransaction, got '' @ type_name)), net)"
    by (simp add: process_not_transfer)
next
  assume "b64decode ext s = Inr bs \<and> from_bytes ext bs = Inr (TransferTransaction tx)
        \<and> validate_transaction ext self tx expected = Inl err"
  then show "process_pre_signed_payment ext self s expected checkout_id net = (Inl err, net)"
    by (simp add: process_invalid)
next
  assume "b64decode ext s = Inr bs \<and> from_bytes ext bs = Inr (TransferTransaction tx)
        \<and> validate_transaction ext self tx expected = Inr ()
        \<and> execute ext (TransferTransaction tx) net = (Inl e, net_x)"
  then show "process_pre_signed_payment ext self s expected checkout_id net =
        (Inl (Exception (''Hedera network error: '' @ e)), net_x)"
    by (simp add: process_execute_raises)
next
  assume "b64decode ext s = Inr bs \<and> from_bytes ext bs = Inr (TransferTransaction tx)
        \<and> validate_transaction ext self tx expected = Inr ()
        \<and> execute ext (TransferTransaction tx) net = (Inr r, net_x)
        \<and> get_receipt ext r net_x = (Inl e, net_r)"
  then show "process_pre_signed_payment ext self s expected checkout_id net =
        (Inl (Exception (''Hedera network error: '' @ e)), net_r)"
    by (simp add: process_get_receipt_raises)
next
  assume "b64decode ext s = Inr bs \<and> from_bytes ext bs = Inr (TransferTransaction tx)
        \<and> validate_transaction ext self tx expected = Inr ()
        \<and> execute ext (TransferTransaction tx) net = (Inr r, net_x)
        \<and> get_receipt ext r net_x = (Inr rc, net_r)"
  then show "snd (process_pre_signed_payment ext self s expected checkout_id net) = net_r"
    by (simp add: process_receipt)
qed

theorem pipeline_short_circuits_before_submission_witness:
  "process_pre_signed_payment (sample_externals ''SUCCESS'') sample_service ''VA='' 2 ''c1'' []
     = (Inl (ValueError ''Invalid base64 encoding: Incorrect padding''), [])
   \<and> process_pre_signed_payment (sample_externals ''SUCCESS'') sample_service ''/w=='' 2 ''c1'' []
     = (Inl (ValueError ''Invalid transaction bytes: Error parsing message''), [])
   \<and> process_pre_signed_payment (sample_externals ''SUCCESS'') sample_service ''Qw=='' 2 ''c1'' []
     = (Inl (ValueError ''Expected TransferTransaction, got AccountCreateTransaction''), [])
   \<and> process_pre_signed_payment (sample_externals ''SUCCESS'') sample_service ''VA=='' 3 ''c1'' []
     = (Inl (ValueError ''Insufficient amount: expected h, got h''), [])
   \<and> snd (process_pre_signed_payment (sample_externals ''SUCCESS'') sample_service ''VA=='' 2
            ''c1'' []) = [TransferTransaction sample_transfer]"
  using
    pipeline_short_circuits_before_submission
      [where ext = "sample_externals ''SUCCESS''" and self = sample_service and expected = 2
         and checkout_id = "''c1''" and net = "[]"
         and s = "''VA=''" and e = "''Incorrect padding''"]
    pipeline_short_circuits_before_submission
      [where ext = "sample_externals ''SUCCESS''" and self = sample_service and expected = 2
         and checkout_id = "''c1''" and net = "[]"
         and s = "''/w==''" and bs = "[255]" and e = "''Error parsing message''"]
    pipeline_short_circuits_before_submission
      [where ext = "sample_externals ''SUCCESS''" and self = sample_service and expected = 2
         and checkout_id = "''c1''" and net = "[]"
         and s = "''Qw==''" and bs = "[67]" and type_name = "''AccountCreateTransaction''"]
    pipeline_short_circuits_before_submission
      [where ext = "sample_externals ''SUCCESS''" and self = sample_service and expected = 3
         and checkout_id = "''c1''" and net = "[]"
         and s = "''VA==''" and bs = "[84]" and tx = sample_transfer
         and err = "ValueError ''Insufficient amount: expected h, got h''"]
    pipeline_short_circuits_before_submission
      [where ext = "sample_externals ''SUCCESS''" and self = sample_service and expected = 2
         and checkout_id = "''c1''" and net = "[]"
         and s = "''VA==''" and bs = "[84]" and tx = sample_transfer
         and r = "\<lparr>response_transaction_id = ''0.0.2@1.5''\<rparr>"
         and net_x = "[TransferTransaction sample_transfer]"
         and net_r = "[TransferTransaction sample_transfer]"
         and rc = "\<lparr>receipt_status_name = ''SUCCESS'', receipt_timestamp = Some 17\<rparr>"]
  by (simp add: sample_b64decode sample_from_bytes sample_validate_ok sample_validate_low
        sample_execute sample_get_receipt)

text \<open>
  C2. Once submission has returned a receipt, the call returns a result exactly when the
  name of the receipt's status is the string \<open>SUCCESS\<close>; with any other name it raises
  an error whose message ends with that name.
\<close>

theorem receipt_interpretation_fail_closed:
  assumes "b64decode ext s = Inr bs"
    and "from_bytes ext bs = Inr (TransferTransaction tx)"
    and "validate_transaction ext self tx expected = Inr ()"
    and "execute ext (TransferTransaction tx) net = (Inr r, net_x)"
    and "get_receipt ext r net_x = (Inr rc, net_r)"
  shows "((\<exists>res. fst (process_pre_signed_payment ext self s expected checkout_id net) = Inr res)
            \<longleftrightarrow> receipt_status_name rc = ''SUCCESS'')
       \<and> (receipt_status_name rc \<noteq> ''SUCCESS'' \<longrightarrow>
            process_pre_signed_payment ext self s expected checkout_id net =
              (Inl (Exception (''Transaction failed with status: '' @ receipt_status_name rc)),
               net_r))"
  by (simp add: process_receipt [OF assms])

theorem receipt_interpretation_fail_closed_witness:
  "(\<exists>res. fst (process_pre_signed_payment (sample_externals ''SUCCESS'') sample_service
               ''VA=='' 2 ''c1'' []) = Inr res)
   \<and> process_pre_signed_payment (sample_externals ''INSUFFICIENT_PAYER_BALANCE'') sample_service
         ''VA=='' 2 ''c1'' []
       = (Inl (Exception ''Transaction failed with status: INSUFFICIENT_PAYER_BALANCE''),
          [TransferTransaction sample_transfer])
   \<and> process_pre_signed_payment (sample_externals ''success'') sample_service
         ''VA=='' 2 ''c1'' []
       = (Inl (Exception ''Transaction failed with status: success''),
          [TransferTransaction sample_transfer])"
proof -
  have v: "\<And>st. validate_transaction (sample_externals st) sample_service sample_transfer 2 = Inr ()"
    by (simp add: validate_transaction_def sample_externals_def sample_service_def
          sample_transfer_def)
  have a: "\<And>st. b64decode (sample_externals st) ''VA=='' = Inr [84]"
    by (simp add: sample_externals_def)
  have b: "\<And>st. from_bytes (sample_externals st) [84] = Inr (TransferTransaction sample_transfer)"
    by (simp add: sample_externals_def)
  have c: "\<And>st. execute (sample_externals st) (TransferTransaction sample_transfer) []
             = (Inr \<lparr>response_transaction_id = ''0.0.2@1.5''\<rparr>, [TransferTransaction sample_transfer])"
    by (simp add: sample_externals_def)
  have d: "\<And>st. get_receipt (sample_externals st) \<lparr>response_transaction_id = ''0.0.2@1.5''\<rparr>
              [TransferTransaction sample_transfer]
             = (Inr \<lparr>receipt_status_name = st, receipt_timestamp = Some 17\<rparr>,
                [TransferTransaction sample_transfer])"
    by (simp add: sample_externals_def)
  show ?thesis
    using receipt_interpretation_fail_closed [OF a b v c d, of "''SUCCESS''" "''c1''"]
      receipt_interpretation_fail_closed [OF a b v c d, of "''INSUFFICIENT_PAYER_BALANCE''" "''c1''"]
      receipt_interpretation_fail_closed [OF a b v c d, of "''success''" "''c1''"]
    by simp
qed

text \<open>
  C6. A settlement whose receipt has the status \<open>SUCCESS\<close> returns the response's
  transaction id, the status \<open>SUCCESS\<close>, the configured network name, the receipt's
  timestamp as a string (\<open>None\<close> when the receipt has none or it is falsy), and the
  explorer URL: the HashScan base URL of the configured network (\<open>mainnet\<close>, \<open>previewnet\<close>
  or \<open>testnet\<close>, the last one also for any other name), then \<open>/transaction/\<close>, then the
  transaction id.
\<close>

theorem successful_settlement_result:
  assumes "b64decode ext s = Inr bs"
    and "from_bytes ext bs = Inr (TransferTransaction tx)"
    and "validate_transaction ext self tx expected = Inr ()"
    and "execute ext (TransferTransaction tx) net = (Inr r, net_x)"
    and "get_receipt ext r net_x = (Inr rc, net_r)"
    and "receipt_status_name rc = ''SUCCESS''"
  shows "process_pre_signed_payment ext self s expected checkout_id net =
           (Inr \<lparr>transaction_id = response_transaction_id r,
                 status = ''SUCCESS'',
                 network = network_name self,
                 timestamp =
                   (case receipt_timestamp rc of
                      None \<Rightarrow> None
                    | Some ts \<Rightarrow>
                        if bool_timestamp ext ts then Some (str_timestamp ext ts) else None),
                 explorer_url =
                   (if network_name self = ''mainnet'' then ''https://hashscan.io/mainnet''
                    else if network_name self = ''previewnet''
                         then ''https://hashscan.io/previewnet''
                    else ''https://hashscan.io/testnet'')
                   @ ''/transaction/'' @ response_transaction_id r\<rparr>,
            net_r)"
  using assms(6)
  by (simp add: process_receipt [OF assms(1-5)] get_explorer_url_def base_urls_def)

theorem successful_settlement_result_witness:
  "process_pre_signed_payment (sample_externals ''SUCCESS'')
       (sample_service\<lparr>network_name := ''mainnet''\<rparr>) ''VA=='' 2 ''c1'' []
     = (Inr \<lparr>transaction_id = ''0.0.2@1.5'',
             status = ''SUCCESS'',
             network = ''mainnet'',
             timestamp = Some ''1.17'',
             explorer_url = ''https://hashscan.io/mainnet/transaction/0.0.2@1.5''\<rparr>,
        [TransferTransaction sample_transfer])
   \<and> process_pre_signed_payment (sample_externals ''SUCCESS'')
       (sample_service\<lparr>network_name := ''previewnet''\<rparr>) ''VA=='' 2 ''c1'' []
     = (Inr \<lparr>transaction_id = ''0.0.2@1.5'',
             status = ''SUCCESS'',
             network = ''previewnet'',
             timestamp = Some ''1.17'',
             explorer_url = ''https://hashscan.io/previewnet/transaction/0.0.2@1.5''\<rparr>,
        [TransferTransaction sample_transfer])"
proof -
  have v: "\<And>name. validate_transaction (sample_externals ''SUCCESS'')
             (sample_service\<lparr>network_name := name\<rparr>) sample_transfer 2 = Inr ()"
    by (simp add: validate_transaction_def sample_externals_def sample_service_def
          sample_transfer_def)
  have x: "execute (sample_externals ''SUCCESS'') (TransferTransaction sample_transfer) []
             = (Inr \<lparr>response_transaction_id = ''0.0.2@1.5''\<rparr>,
                [TransferTransaction sample_transfer])"
    by (simp add: sample_execute)
  have rc: "receipt_status_name \<lparr>receipt_status_name = ''SUCCESS'', receipt_timestamp = Some (17::nat)\<rparr>
              = ''SUCCESS''"
    by simp
  show ?thesis
    using
      successful_settlement_result
        [OF sample_b64decode(1) sample_from_bytes(1) v x sample_get_receipt rc,
         where checkout_id = "''c1''" and ?name2 = "''mainnet''"]
      successful_settlement_result
        [OF sample_b64decode(1) sample_from_bytes(1) v x sample_get_receipt rc,
         where checkout_id = "''c1''" and ?name2 = "''previewnet''"]
    by (simp add: sample_externals_def sample_service_def)
qed

subsection \<open>The transfers the client builds\<close>

lemma dict_same_key_same_amount:
  "distinct (map fst legs) \<Longrightarrow> (k, u) \<in> set legs \<Longrightarrow> (k, v) \<in> set legs \<Longrightarrow> u = v"
  by (rule eq_key_imp_eq_value)

lemma no_dict_with_both_legs:
  "t \<noteq> 0 \<Longrightarrow> \<not> carries_balanced_legs tx account account t"
proof
  assume t: "t \<noteq> 0" and c: "carries_balanced_legs tx account account t"
  from c have "distinct (map fst (hbar_transfers tx))"
    and "(account, - t) \<in> set (hbar_transfers tx)"
    and "(account, t) \<in> set (hbar_transfers tx)"
    by (simp_all add: carries_balanced_legs_def)
  then have "- t = t" by (rule dict_same_key_same_amount)
  with t show False by simp
qed

lemma two_fresh_legs:
  assumes b: "dict_builder b" and ne: "customer \<noteq> merchant"
  shows "carries_balanced_legs
           (freeze_and_sign b (set_transaction_memo b memo
              (add_hbar_transfer b merchant t
                (add_hbar_transfer b customer (- t) (new_transfer b)))))
           customer merchant t"
proof -
  let ?tx0 = "new_transfer b"
  let ?tx1 = "add_hbar_transfer b customer (- t) ?tx0"
  let ?tx2 = "add_hbar_transfer b merchant t ?tx1"
  from b have empty: "hbar_transfers ?tx0 = []"
    by (simp add: dict_builder_def)
  from b have add: "\<And>a v tx. distinct (map fst (hbar_transfers tx)) \<Longrightarrow>
      a \<notin> fst ` set (hbar_transfers tx) \<Longrightarrow>
      distinct (map fst (hbar_transfers (add_hbar_transfer b a v tx)))
      \<and> set (hbar_transfers (add_hbar_transfer b a v tx)) = insert (a, v) (set (hbar_transfers tx))"
    by (simp add: dict_builder_def)
  from b have keep: "\<And>tx. hbar_transfers (freeze_and_sign b (set_transaction_memo b memo tx))
      = hbar_transfers tx"
    by (simp add: dict_builder_def)
  have one: "distinct (map fst (hbar_transfers ?tx1))
      \<and> set (hbar_transfers ?tx1) = {(customer, - t)}"
    using add [of ?tx0 customer "- t"] empty by simp
  then have two: "distinct (map fst (hbar_transfers ?tx2))
      \<and> set (hbar_transfers ?tx2) = {(merchant, t), (customer, - t)}"
    using add [of ?tx1 merchant t] ne by auto
  then show ?thesis
    by (auto simp: carries_balanced_legs_def keep)
qed

lemma balanced_legs_sum_zero:
  assumes "carries_balanced_legs tx customer merchant t" and "customer \<noteq> merchant"
  shows "sum_list (map snd (hbar_transfers tx)) = 0"
proof -
  from assms(1) have d: "distinct (hbar_transfers tx)"
    and s: "set (hbar_transfers tx) = {(customer, - t), (merchant, t)}"
    by (simp_all add: carries_balanced_legs_def distinct_map)
  have "sum_list (map snd (hbar_transfers tx)) = sum snd (set (hbar_transfers tx))"
    using d by (rule sum_list_distinct_conv_sum_set)
  also have "\<dots> = 0"
    using assms(2) by (simp add: s)
  finally show ?thesis .
qed

lemma dict_add_fresh:
  "a \<notin> fst ` set legs \<Longrightarrow> dict_add a v legs = legs @ [(a, v)]"
  by (induction legs) auto

lemma sample_builder_is_dict_builder: "dict_builder sample_builder"
  by (auto simp: dict_builder_def sample_builder_def dict_add_fresh)

text \<open>
  C9, as the code has it. For a customer account other than the merchant account, the
  client's transfer carries exactly the customer leg of minus
  \<open>int(amount_hbar * 100_000_000)\<close> and the merchant leg of plus the same number, the test
  script's transfer the two legs of minus and plus \<open>AMOUNT_HBAR\<close>, and in both the amounts
  add up to zero. This holds for every builder that stores a leg for an account not yet
  in the transaction under that account.
\<close>

theorem client_transfers_balanced_for_distinct_accounts:
  assumes "dict_builder b" and "customer_acct \<noteq> merchant_acct"
  shows "carries_balanced_legs
           (create_hedera_payment b float_mul py_int customer_acct merchant_acct amount_hbar
              checkout_id)
           customer_acct merchant_acct (py_int (float_mul amount_hbar 100000000))
       \<and> sum_list (map snd (hbar_transfers
           (create_hedera_payment b float_mul py_int customer_acct merchant_acct amount_hbar
              checkout_id))) = 0
       \<and> carries_balanced_legs (create_transaction b customer_acct merchant_acct)
           customer_acct merchant_acct 100000000
       \<and> sum_list (map snd (hbar_transfers (create_transaction b customer_acct merchant_acct)))
           = 0"
proof -
  have pay: "carries_balanced_legs
           (create_hedera_payment b float_mul py_int customer_acct merchant_acct amount_hbar
              checkout_id)
           customer_acct merchant_acct (py_int (float_mul amount_hbar 100000000))"
    unfolding create_hedera_payment_def Let_def using assms by (rule two_fresh_legs)
  have test: "carries_balanced_legs (create_transaction b customer_acct merchant_acct)
           customer_acct merchant_acct AMOUNT_HBAR"
    unfolding create_transaction_def using assms by (rule two_fresh_legs)
  have amount: "AMOUNT_HBAR = 100000000"
    by (simp add: AMOUNT_HBAR_def)
  show ?thesis
    using pay test balanced_legs_sum_zero [OF pay assms(2)]
      balanced_legs_sum_zero [OF test assms(2)]
    by (simp add: amount)
qed

theorem client_transfers_balanced_for_distinct_accounts_witness:
  "dict_builder sample_builder
   \<and> (2::nat) \<noteq> 98
   \<and> hbar_transfers (create_hedera_payment sample_builder (\<lambda>f k. f * k) (\<lambda>f. f) 2 98 3 ''c1'')
       = [(2, - 300000000), (98, 300000000)]
   \<and> carries_balanced_legs
       (create_hedera_payment sample_builder (\<lambda>f k. f * k) (\<lambda>f. f) 2 98 3 ''c1'')
       2 98 300000000
   \<and> sum_list (map snd (hbar_transfers
       (create_hedera_payment sample_builder (\<lambda>f k. f * k) (\<lambda>f. f) 2 98 3 ''c1''))) = 0
   \<and> hbar_transfers (create_transaction sample_builder 2 98)
       = [(2, - 100000000), (98, 100000000)]"
proof -
  have ne: "(2::nat) \<noteq> 98" by simp
  have legs: "hbar_transfers
      (create_hedera_payment sample_builder (\<lambda>f k. f * k) (\<lambda>f. f) 2 98 3 ''c1'')
       = [(2, - 300000000), (98, 300000000)]"
    by (simp add: create_hedera_payment_def sample_builder_def)
  have test: "hbar_transfers (create_transaction sample_builder 2 98)
       = [(2, - 100000000), (98, 100000000)]"
    by (simp add: create_transaction_def sample_builder_def AMOUNT_HBAR_def)
  show ?thesis
    using sample_builder_is_dict_builder ne legs test
      client_transfers_balanced_for_distinct_accounts
        [OF sample_builder_is_dict_builder ne, where float_mul = "\<lambda>f k. f * k"
           and py_int = "\<lambda>f. f" and amount_hbar = 3 and checkout_id = "''c1''"]
    by simp
qed

text \<open>
  With the customer account equal to the merchant account (the setup script writes one
  account id for both roles, and the test script offers the merchant account as the
  customer's) and a payment of 1 HBAR, the two calls address one key of the dict: no
  builder at all returns a transaction that carries a leg of minus 100000000 and a leg of
  plus 100000000. The sample builder returns the single leg of amount 0.
\<close>

theorem client_transfer_same_account_not_two_legs:
  "\<not> (\<exists>b. carries_balanced_legs
           (create_hedera_payment b (\<lambda>f k. f * k) (\<lambda>f. f) (98::nat) 98 (1::int) ''c1'')
           98 98 100000000)
   \<and> \<not> (\<exists>b. carries_balanced_legs (create_transaction b (98::nat) 98) 98 98 100000000)
   \<and> hbar_transfers
       (create_hedera_payment sample_builder (\<lambda>f k. f * k) (\<lambda>f. f) 98 98 (1::int) ''c1'')
       = [(98, 0)]"
proof -
  have "hbar_transfers
       (create_hedera_payment sample_builder (\<lambda>f k. f * k) (\<lambda>f. f) 98 98 (1::int) ''c1'')
       = [(98, 0)]"
    by (simp add: create_hedera_payment_def sample_builder_def)
  then show ?thesis
    by (simp add: no_dict_with_both_legs)
qed

end
